theory Spec2Isabelle
  imports Complex_Main "HOL-Library.AList"
begin

section \<open>Vectors and quaternions\<close>

text \<open>
  Python floats are modelled by the reals: rounding is left out, every other step of the
  arithmetic is written as the code performs it. A position is a numpy array of three
  numbers.
\<close>

type_synonym vec3 = "real \<times> real \<times> real"

definition zeros3 :: vec3 where
  \<comment> \<open>\<^verbatim>\<open>np.zeros(3)\<close>\<close>
  "zeros3 = (0, 0, 0)"

fun vec_add :: "vec3 \<Rightarrow> vec3 \<Rightarrow> vec3" where
  "vec_add (a, b, c) (x, y, z) = (a + x, b + y, c + z)"

fun vec_sub :: "vec3 \<Rightarrow> vec3 \<Rightarrow> vec3" where
  "vec_sub (a, b, c) (x, y, z) = (a - x, b - y, c - z)"

text \<open>
  \<^verbatim>\<open>np.quaternion(w, x, y, z)\<close>. Magnum's \<^verbatim>\<open>mn.Quaternion\<close> holds the same four
  numbers (vector part, scalar part), so one type models both and the conversions between
  them keep the components.
\<close>

datatype quaternion = Quaternion (qw: real) (qx: real) (qy: real) (qz: real)

definition quat_identity :: quaternion where
  "quat_identity = Quaternion 1 0 0 0"

fun quat_mul :: "quaternion \<Rightarrow> quaternion \<Rightarrow> quaternion" where
  "quat_mul (Quaternion a b c d) (Quaternion e f g h) =
     Quaternion (a * e - b * f - c * g - d * h)
                (a * f + b * e + c * h - d * g)
                (a * g - b * h + c * e + d * f)
                (a * h + b * g - c * f + d * e)"

fun quat_norm_sq :: "quaternion \<Rightarrow> real" where
  "quat_norm_sq (Quaternion a b c d) = a * a + b * b + c * c + d * d"

definition quat_norm :: "quaternion \<Rightarrow> real" where
  "quat_norm q = sqrt (quat_norm_sq q)"

fun quat_inverse :: "quaternion \<Rightarrow> quaternion" where
  \<comment> \<open>\<^verbatim>\<open>q.inverse()\<close>: the conjugate over the squared norm\<close>
  "quat_inverse (Quaternion a b c d) =
     (let n = quat_norm_sq (Quaternion a b c d)
      in Quaternion (a / n) (- b / n) (- c / n) (- d / n))"

fun quat_imag :: "quaternion \<Rightarrow> vec3" where
  "quat_imag (Quaternion a b c d) = (b, c, d)"

fun quat_of_vec :: "vec3 \<Rightarrow> quaternion" where
  "quat_of_vec (x, y, z) = Quaternion 0 x y z"

definition quat_to_magnum :: "quaternion \<Rightarrow> quaternion" where
  \<comment> \<open>Modelled from the spec: \<^verbatim>\<open>habitat_sim.utils.common.quat_to_magnum\<close> is not among the
      source files; it hands the same rotation to the transform hierarchy.\<close>
  "quat_to_magnum q = q"

definition quat_from_magnum :: "quaternion \<Rightarrow> quaternion" where
  \<comment> \<open>Modelled from the spec: \<^verbatim>\<open>habitat_sim.utils.common.quat_from_magnum\<close> is not among
      the source files; it reads the same rotation back from the transform hierarchy.\<close>
  "quat_from_magnum q = q"

definition quat_rotate_vector :: "quaternion \<Rightarrow> vec3 \<Rightarrow> vec3" where
  \<comment> \<open>Modelled from the spec: \<^verbatim>\<open>habitat_sim.utils.common.quat_rotate_vector\<close> is not among
      the source files; the rotation \<open>q\<close> applied to the vector \<open>v\<close>, that is the vector
      part of \<open>q v q\<inverse>\<close>.\<close>
  "quat_rotate_vector q v = quat_imag (quat_mul (quat_mul q (quat_of_vec v)) (quat_inverse q))"

text \<open>
  A raw coefficient sequence of a rotation: four numbers, in the order \<open>[x, y, z, w]\<close>.
\<close>

type_synonym coeffs = "real \<times> real \<times> real \<times> real"

fun quat_from_coeffs :: "coeffs \<Rightarrow> quaternion" where
  \<comment> \<open>Modelled from the spec: \<^verbatim>\<open>habitat_sim.utils.common.quat_from_coeffs\<close> is not among
      the source files. The spec: a raw coefficient sequence "is normalized into a unit
      quaternion before use".\<close>
  "quat_from_coeffs (x, y, z, w) =
     (let n = sqrt (x * x + y * y + z * z + w * w)
      in Quaternion (w / n) (x / n) (y / n) (z / n))"

section \<open>The data model\<close>

datatype error =
    InvalidObjectError   \<comment> \<open>raised by \<^verbatim>\<open>habitat_sim.errors.assert_obj_valid\<close>\<close>
  | UnknownActionError   \<comment> \<open>the failed \<^verbatim>\<open>assert action_id in self.agent_config.action_space\<close>\<close>
  | UnknownSensorError   \<comment> \<open>the failed \<^verbatim>\<open>assert k in self._sensors\<close>\<close>
  | AttributeError       \<comment> \<open>a method called on \<^verbatim>\<open>self.sim\<close> when it is \<^verbatim>\<open>None\<close>\<close>

text \<open>
  \<^verbatim>\<open>ActuationSpec\<close> (of \<^verbatim>\<open>habitat_sim.agent.controls\<close>) and \<^verbatim>\<open>hsim.SensorSpec\<close> are not
  among the source files. Of the first the model keeps the magnitude of the action, of the
  second the sensor's name and the default transformation of its node, the orientation as
  the quaternion it stands for.
\<close>

record ActuationSpec =
  amount :: real

record ActionSpec =
  name :: string
  actuation :: "ActuationSpec option"

datatype pose_rotation = PQuat quaternion | PList coeffs

record SixDOFPose =
  pose_position :: vec3
  pose_rotation :: pose_rotation

datatype state_rotation = RQuat quaternion | RList coeffs | RArray coeffs

record AgentState =
  position :: vec3
  rotation :: state_rotation
  velocity :: vec3
  angular_velocity :: vec3
  force :: vec3
  torque :: vec3
  sensor_states :: "(string \<times> SixDOFPose) list"

record SensorSpec =
  uuid :: string
  spec_position :: vec3
  spec_orientation :: quaternion

record AgentConfiguration =
  height :: real
  radius :: real
  mass :: real
  linear_acceleration :: real
  angular_acceleration :: real
  linear_friction :: real
  angular_friction :: real
  coefficient_of_restitution :: real
  sensor_specifications :: "SensorSpec list"
  action_space :: "string \<rightharpoonup> ActionSpec"
  body_type :: string

subsection \<open>The transform hierarchy\<close>

text \<open>
  A scene node carries its transformation relative to its parent. The agent's body is a
  feature of a node it does not own: \<open>body_valid\<close> says whether the owner of the scene
  graph is still there, \<open>parent_frame\<close> is the absolute transformation of the node's parent.
  Every sensor's node is a child of the body's node.
\<close>

record scene_node =
  translation :: vec3
  node_rotation :: quaternion

record body =
  body_valid :: bool
  parent_frame :: scene_node
  object :: scene_node

record sensor =
  sensor_valid :: bool
  node :: scene_node
  sensor_spec :: SensorSpec

definition reset_transformation :: "scene_node \<Rightarrow> scene_node" where
  "reset_transformation n = n\<lparr>translation := zeros3, node_rotation := quat_identity\<rparr>"

definition translate :: "vec3 \<Rightarrow> scene_node \<Rightarrow> scene_node" where
  "translate v n = n\<lparr>translation := vec_add (translation n) v\<rparr>"

definition set_rotation :: "quaternion \<Rightarrow> scene_node \<Rightarrow> scene_node" where
  "set_rotation q n = n\<lparr>node_rotation := q\<rparr>"

definition compose :: "scene_node \<Rightarrow> scene_node \<Rightarrow> scene_node" where
  \<comment> \<open>the absolute transformation of a node with transformation \<open>n\<close> under a parent whose
      absolute transformation is \<open>p\<close>\<close>
  "compose p n =
     \<lparr>translation = vec_add (translation p) (quat_rotate_vector (node_rotation p) (translation n)),
      node_rotation = quat_mul (node_rotation p) (node_rotation n)\<rparr>"

definition body_absolute :: "body \<Rightarrow> scene_node" where
  "body_absolute b = compose (parent_frame b) (object b)"

definition absolute_translation :: "body \<Rightarrow> vec3" where
  \<comment> \<open>\<^verbatim>\<open>self.body.object.absolute_translation\<close>\<close>
  "absolute_translation b = translation (body_absolute b)"

definition sensor_absolute_translation :: "body \<Rightarrow> sensor \<Rightarrow> vec3" where
  \<comment> \<open>\<^verbatim>\<open>v.node.absolute_translation\<close> of a sensor whose node hangs under the body's node\<close>
  "sensor_absolute_translation b v = translation (compose (body_absolute b) (node v))"

definition set_transformation_from_spec :: "sensor \<Rightarrow> sensor" where
  \<comment> \<open>Modelled from the spec: the sensor class is not among the source files; the sensor's
      transform "is reset to its configured default (as defined by its original
      specification)".\<close>
  "set_transformation_from_spec v =
     v\<lparr>node := \<lparr>translation = spec_position (sensor_spec v),
                 node_rotation = spec_orientation (sensor_spec v)\<rparr>\<rparr>"

subsection \<open>The agent\<close>

text \<open>
  \<open>initial_state\<close> holds a reference to an \<^verbatim>\<open>AgentState\<close> object, not a copy of it: the
  objects live in a store, addressed by natural numbers.
\<close>

type_synonym ref = nat

record agent =
  agent_config :: AgentConfiguration
  sensors :: "(string \<times> sensor) list"
  body :: body
  initial_state :: "ref option"
  gripped_object_id :: int
  gripped_object_transformation :: "scene_node option"

section \<open>Reading and setting the state\<close>

definition AgentState_init :: "vec3 \<Rightarrow> state_rotation \<Rightarrow> AgentState" where
  \<comment> \<open>\<^verbatim>\<open>AgentState(position, rotation)\<close>: the other fields take their defaults\<close>
  "AgentState_init p r =
     \<lparr>position = p, rotation = r, velocity = zeros3, angular_velocity = zeros3,
      force = zeros3, torque = zeros3, sensor_states = []\<rparr>"

fun get_sensor_states ::
  "body \<Rightarrow> quaternion \<Rightarrow> (string \<times> sensor) list \<Rightarrow> (string \<times> SixDOFPose) list
     \<Rightarrow> error + (string \<times> SixDOFPose) list" where
  "get_sensor_states b r [] acc = Inr acc"
| "get_sensor_states b r ((k, v) # rest) acc =
     (if \<not> sensor_valid v then Inl InvalidObjectError
      else get_sensor_states b r rest
             (AList.update k
                \<lparr>pose_position = sensor_absolute_translation b v,
                 pose_rotation = PQuat (quat_from_magnum (quat_mul r (node_rotation (node v))))\<rparr>
                acc))"

definition get_state :: "agent \<Rightarrow> error + AgentState" where
  "get_state a =
     (if \<not> body_valid (body a) then Inl InvalidObjectError
      else
        let state = AgentState_init (absolute_translation (body a))
                      (RQuat (node_rotation (object (body a))))
        in case get_sensor_states (body a) (node_rotation (object (body a))) (sensors a)
                  (sensor_states state) of
             Inl e \<Rightarrow> Inl e
           | Inr ss \<Rightarrow>
               Inr (state\<lparr>sensor_states := ss,
                          rotation := RQuat (quat_from_magnum (node_rotation (object (body a))))\<rparr>))"

fun state_quat :: "state_rotation \<Rightarrow> quaternion" where
  \<comment> \<open>\<^verbatim>\<open>state.rotation\<close> after line 280-281 of \<^verbatim>\<open>set_state\<close>\<close>
  "state_quat (RQuat q) = q"
| "state_quat (RList cs) = quat_from_coeffs cs"
| "state_quat (RArray cs) = quat_from_coeffs cs"

fun pose_quat :: "pose_rotation \<Rightarrow> quaternion" where
  \<comment> \<open>\<^verbatim>\<open>v.rotation\<close> after line 295-296 of \<^verbatim>\<open>set_state\<close>\<close>
  "pose_quat (PQuat q) = q"
| "pose_quat (PList cs) = quat_from_coeffs cs"

definition place_sensor :: "quaternion \<Rightarrow> vec3 \<Rightarrow> SixDOFPose \<Rightarrow> sensor \<Rightarrow> sensor" where
  \<comment> \<open>lines 300-306: \<open>q\<close> is \<^verbatim>\<open>state.rotation\<close>, \<open>p\<close> is \<^verbatim>\<open>state.position\<close>, \<open>v\<close> the pose,
      its rotation already a quaternion\<close>
  "place_sensor q p v s =
     s\<lparr>node :=
         set_rotation (quat_to_magnum (quat_mul (quat_inverse q) (pose_quat (pose_rotation v))))
           (translate (quat_rotate_vector (quat_inverse q) (vec_sub (pose_position v) p))
              (reset_transformation (node s)))\<rparr>"

fun place_sensors ::
  "quaternion \<Rightarrow> vec3 \<Rightarrow> (string \<times> SixDOFPose) list \<Rightarrow> (string \<times> sensor) list
     \<Rightarrow> error option \<times> (string \<times> SixDOFPose) list \<times> (string \<times> sensor) list" where
  "place_sensors q p [] ss = (None, [], ss)"
| "place_sensors q p ((k, v) # rest) ss =
     (case map_of ss k of
        None \<Rightarrow> (Some UnknownSensorError, (k, v) # rest, ss)
      | Some s \<Rightarrow>
          let v' = v\<lparr>pose_rotation := PQuat (pose_quat (pose_rotation v))\<rparr>;
              (err, rest', ss') = place_sensors q p rest (AList.update k (place_sensor q p v' s) ss)
          in (err, (k, v') # rest', ss'))"

definition set_body_pose :: "vec3 \<Rightarrow> quaternion \<Rightarrow> body \<Rightarrow> body" where
  \<comment> \<open>lines 283-286\<close>
  "set_body_pose p q b =
     b\<lparr>object := set_rotation (quat_to_magnum q) (translate p (reset_transformation (object b)))\<rparr>"

definition set_state ::
  "agent \<Rightarrow> ref \<Rightarrow> AgentState \<Rightarrow> bool \<Rightarrow> bool \<Rightarrow> bool \<Rightarrow> error option \<times> agent \<times> AgentState" where
  \<comment> \<open>\<open>r\<close> is the reference of the \<^verbatim>\<open>AgentState\<close> object whose content is \<open>state\<close>. The
      result holds the exception raised, if any, the agent and the content of the state
      object as the call leaves them.\<close>
  "set_state a r state reset_sensors infer_sensor_states is_initial =
     (if \<not> body_valid (body a) then (Some InvalidObjectError, a, state)
      else
        let state1 = state\<lparr>rotation := RQuat (state_quat (rotation state))\<rparr>;
            q = state_quat (rotation state);
            a1 = a\<lparr>body := set_body_pose (position state1) q (body a)\<rparr>;
            a2 = (if reset_sensors
                  then a1\<lparr>sensors := map (\<lambda>(k, v). (k, set_transformation_from_spec v)) (sensors a1)\<rparr>
                  else a1)
        in if \<not> infer_sensor_states then
             (case place_sensors q (position state1) (sensor_states state1) (sensors a2) of
                (Some e, ss, vs) \<Rightarrow> (Some e, a2\<lparr>sensors := vs\<rparr>, state1\<lparr>sensor_states := ss\<rparr>)
              | (None, ss, vs) \<Rightarrow>
                  (None,
                   (if is_initial then a2\<lparr>sensors := vs, initial_state := Some r\<rparr>
                    else a2\<lparr>sensors := vs\<rparr>),
                   state1\<lparr>sensor_states := ss\<rparr>))
           else (None, (if is_initial then a2\<lparr>initial_state := Some r\<rparr> else a2), state1))"

subsection \<open>The state object in the caller's hands\<close>

text \<open>
  \<open>set_state\<close> is handed a reference to an \<^verbatim>\<open>AgentState\<close> object and assigns to its
  attributes. The store maps every reference to the content of its object; the call
  writes the content it leaves back at the reference it was given.
\<close>

type_synonym store = "ref \<Rightarrow> AgentState"

definition set_state_obj ::
  "agent \<Rightarrow> store \<Rightarrow> ref \<Rightarrow> bool \<Rightarrow> bool \<Rightarrow> bool \<Rightarrow> error option \<times> agent \<times> store" where
  "set_state_obj a h r reset_sensors infer_sensor_states is_initial =
     (case set_state a r (h r) reset_sensors infer_sensor_states is_initial of
        (e, a', state') \<Rightarrow> (e, a', h(r := state')))"

definition recorded_initial_state :: "agent \<Rightarrow> store \<Rightarrow> AgentState option" where
  \<comment> \<open>what \<^verbatim>\<open>self.initial_state\<close> shows when it is read\<close>
  "recorded_initial_state a h = map_option h (initial_state a)"

section \<open>Reconfiguring\<close>

definition CameraSensor :: "SensorSpec \<Rightarrow> sensor" where
  \<comment> \<open>Modelled from the spec: \<^verbatim>\<open>hsim.CameraSensor(self.scene_node.create_child(), spec)\<close>
      is not among the source files; a new sensor on a new child node of the body, at the
      default its specification gives.\<close>
  "CameraSensor spec =
     set_transformation_from_spec
       \<lparr>sensor_valid = True,
        node = \<lparr>translation = zeros3, node_rotation = quat_identity\<rparr>,
        sensor_spec = spec\<rparr>"

definition sensor_suite_add :: "sensor \<Rightarrow> (string \<times> sensor) list \<Rightarrow> (string \<times> sensor) list" where
  \<comment> \<open>Modelled from the spec: \<^verbatim>\<open>SensorSuite.add\<close> is not among the source files; the suite
      maps every sensor's name to the sensor.\<close>
  "sensor_suite_add s ss = AList.update (uuid (sensor_spec s)) s ss"

fun add_sensors :: "SensorSpec list \<Rightarrow> (string \<times> sensor) list \<Rightarrow> (string \<times> sensor) list" where
  "add_sensors [] ss = ss"
| "add_sensors (spec # specs) ss = add_sensors specs (sensor_suite_add (CameraSensor spec) ss)"

definition reconfigure :: "agent \<Rightarrow> AgentConfiguration \<Rightarrow> bool \<Rightarrow> error option \<times> agent" where
  "reconfigure a config reconfigure_sensors =
     (if \<not> body_valid (body a) then (Some InvalidObjectError, a)
      else
        let a1 = a\<lparr>agent_config := config\<rparr>
        in if reconfigure_sensors
           then (None, a1\<lparr>sensors := add_sensors (sensor_specifications (agent_config a1)) []\<rparr>)
           else (None, a1))"

section \<open>Acting\<close>

text \<open>
  The controls and the simulator are not among the source files: \<open>act\<close> takes what it calls
  of them as parameters. A control moves a node, given the absolute transformation of the
  node's parent; the simulator's state is a value of the type \<open>'sim\<close>, passed along and
  returned.
\<close>

record 'sim ObjectControls =
  is_body_action :: "string \<Rightarrow> bool"
  is_interact_action :: "string \<Rightarrow> bool"
  action :: "scene_node \<Rightarrow> scene_node \<Rightarrow> string \<Rightarrow> ActuationSpec option \<Rightarrow> bool \<Rightarrow> scene_node \<times> bool"
    \<comment> \<open>\<^verbatim>\<open>controls.action(obj, name, actuation, apply_filter)\<close>: the node moved, and whether it
        collided\<close>
  interact :: "'sim \<Rightarrow> vec3 \<Rightarrow> scene_node \<Rightarrow> scene_node \<Rightarrow> string \<Rightarrow> ActuationSpec option
                 \<Rightarrow> scene_node \<times> 'sim \<times> int"
    \<comment> \<open>\<^verbatim>\<open>controls.action(obj, name, actuation, apply_filter=False, sim=sim, ref_point=p)\<close>:
        the node, the simulator, and \<^verbatim>\<open>data["nearest_object_id"]\<close>\<close>

record 'sim Simulator =
  crosshair_direction :: "'sim \<Rightarrow> vec3"
    \<comment> \<open>\<^verbatim>\<open>sim.unproject(sim.get_crosshair_position()).direction\<close>\<close>
  find_floor_position_under_crosshair :: "'sim \<Rightarrow> vec3 \<Rightarrow> vec3 \<Rightarrow> real \<Rightarrow> vec3 option"
    \<comment> \<open>the \<^verbatim>\<open>point\<close> of the hit, at the resolution \<^verbatim>\<open>sim.get_resolution()\<close>\<close>
  get_object_handle :: "'sim \<Rightarrow> int \<Rightarrow> string"
    \<comment> \<open>\<^verbatim>\<open>sim.get_object_from_scene(id)["objectHandle"]\<close>\<close>
  add_object_by_handle :: "'sim \<Rightarrow> string \<Rightarrow> int \<times> 'sim"
  set_translation :: "'sim \<Rightarrow> vec3 \<Rightarrow> int \<Rightarrow> 'sim"
  contact_test :: "'sim \<Rightarrow> int \<Rightarrow> bool"
  update_object_in_scene :: "'sim \<Rightarrow> int \<Rightarrow> int \<Rightarrow> 'sim"
  get_transformation :: "'sim \<Rightarrow> int \<Rightarrow> scene_node"
  remove_object :: "'sim \<Rightarrow> int \<Rightarrow> 'sim"

text \<open>
  The loop of lines 209-215 lifts the object by a quarter of a unit until it touches
  nothing. Nothing bounds it: not returning is the value \<open>None\<close>.
\<close>

partial_function (option) lift_until_free ::
  "'sim Simulator \<Rightarrow> int \<Rightarrow> vec3 \<Rightarrow> 'sim \<Rightarrow> 'sim option" where
  "lift_until_free api new_object_id new_object_position s =
     (if contact_test api s new_object_id
      then lift_until_free api new_object_id
             (fst new_object_position, fst (snd new_object_position) + 0.25,
              snd (snd new_object_position))
             (set_translation api s
                (fst new_object_position, fst (snd new_object_position) + 0.25,
                 snd (snd new_object_position))
                new_object_id)
      else Some s)"

fun act_sensors ::
  "'sim ObjectControls \<Rightarrow> scene_node \<Rightarrow> ActionSpec \<Rightarrow> (string \<times> sensor) list
     \<Rightarrow> error option \<times> (string \<times> sensor) list" where
  \<comment> \<open>lines 226-230; \<open>p\<close> is the absolute transformation of the body's node\<close>
  "act_sensors ctl p spec [] = (None, [])"
| "act_sensors ctl p spec ((k, v) # rest) =
     (if \<not> sensor_valid v then (Some InvalidObjectError, (k, v) # rest)
      else
        let v' = v\<lparr>node := fst (action ctl p (node v) (name spec) (actuation spec) False)\<rparr>;
            (err, rest') = act_sensors ctl p spec rest
        in (err, (k, v') # rest'))"

definition place_gripped ::
  "'sim Simulator \<Rightarrow> agent \<Rightarrow> 'sim \<Rightarrow> vec3 \<Rightarrow> vec3
     \<Rightarrow> ((error + bool) \<times> agent \<times> 'sim option) option" where
  \<comment> \<open>lines 189-218\<close>
  "place_gripped api a s cross_hair_point ref_point =
     (case find_floor_position_under_crosshair api s cross_hair_point ref_point 1.5 of
        None \<Rightarrow> Some (Inr True, a, Some s)
      | Some floor_position \<Rightarrow>
          (case gripped_object_transformation a of
             None \<Rightarrow> Some (Inl AttributeError, a, Some s)
           | Some g \<Rightarrow>
               let y_value = max (fst (snd (translation g))) (fst (snd floor_position));
                   new_object_position = (fst floor_position, y_value, snd (snd floor_position));
                   handle = get_object_handle api s (gripped_object_id a);
                   new_object_id = fst (add_object_by_handle api s handle);
                   s1 = snd (add_object_by_handle api s handle);
                   s2 = set_translation api s1 new_object_position new_object_id
               in (case lift_until_free api new_object_id new_object_position s2 of
                     None \<Rightarrow> None
                   | Some s3 \<Rightarrow>
                       Some (Inr False, a\<lparr>gripped_object_id := - 1\<rparr>,
                             Some (update_object_in_scene api s3 (gripped_object_id a)
                                     new_object_id)))))"

definition act ::
  "'sim ObjectControls \<Rightarrow> 'sim Simulator \<Rightarrow> agent \<Rightarrow> 'sim option \<Rightarrow> string
     \<Rightarrow> ((error + bool) \<times> agent \<times> 'sim option) option" where
  \<comment> \<open>\<open>sim\<close> is the state of \<^verbatim>\<open>self.sim\<close>, or \<open>None\<close> when the agent has no simulator. The
      result is \<open>None\<close> when the call does not return; otherwise the exception raised or the
      value returned, the agent and the simulator as the call leaves them.\<close>
  "act ctl api a sim action_id =
     (if \<not> body_valid (body a) then Some (Inl InvalidObjectError, a, sim)
      else
        case action_space (agent_config a) action_id of
          None \<Rightarrow> Some (Inl UnknownActionError, a, sim)
        | Some spec \<Rightarrow>
            if is_body_action ctl (name spec) then
              (let r = action ctl (parent_frame (body a)) (object (body a)) (name spec)
                         (actuation spec) True
               in Some (Inr (snd r), a\<lparr>body := (body a)\<lparr>object := fst r\<rparr>\<rparr>, sim))
            else if is_interact_action ctl (name spec) then
              (case sim of
                 None \<Rightarrow> Some (Inl AttributeError, a, sim)
               | Some s \<Rightarrow>
                   let cross_hair_point = crosshair_direction api s;
                       ref_point = absolute_translation (body a);
                       r = interact ctl s ref_point (parent_frame (body a)) (object (body a))
                             (name spec) (actuation spec);
                       a1 = a\<lparr>body := (body a)\<lparr>object := fst r\<rparr>\<rparr>;
                       s1 = fst (snd r);
                       nearest_object_id = snd (snd r)
                   in if gripped_object_id a1 \<noteq> - 1
                      then place_gripped api a1 s1 cross_hair_point ref_point
                      else if nearest_object_id \<noteq> - 1
                      then Some (Inr False,
                                 a1\<lparr>gripped_object_transformation :=
                                       Some (get_transformation api s1 nearest_object_id),
                                     gripped_object_id := nearest_object_id\<rparr>,
                                 Some (remove_object api s1 nearest_object_id))
                      else Some (Inr False, a1, Some s1))
            else
              (case act_sensors ctl (body_absolute (body a)) spec (sensors a) of
                 (Some e, ss) \<Rightarrow> Some (Inl e, a\<lparr>sensors := ss\<rparr>, sim)
               | (None, ss) \<Rightarrow> Some (Inr False, a\<lparr>sensors := ss\<rparr>, sim)))"

section \<open>Default values of the state classes\<close>

text \<open>
  \<^verbatim>\<open>AgentState\<close> and \<^verbatim>\<open>SixDOFPose\<close> are \<^verbatim>\<open>attr.s\<close> classes. Python evaluates the
  expression after \<open>=\<close> of each attribute once, when the class statement runs, and the
  generated constructor stores that very object into every instance built without the
  argument; only an \<^verbatim>\<open>attr.Factory\<close> is called anew for each instance. Arrays,
  quaternions and dictionaries are objects in a heap, and an instance holds their
  addresses.
\<close>

type_synonym addr = nat

datatype pyobj =
    NdArray "real list"
  | NpQuaternion quaternion
  | PyDict "(string \<times> addr) list"

record pyheap =
  objects :: "addr \<rightharpoonup> pyobj"
  next_free :: addr

definition empty_heap :: pyheap where
  "empty_heap = \<lparr>objects = Map.empty, next_free = 0\<rparr>"

definition alloc :: "pyobj \<Rightarrow> pyheap \<Rightarrow> addr \<times> pyheap" where
  "alloc obj h =
     (next_free h, h\<lparr>objects := (objects h)(next_free h \<mapsto> obj), next_free := Suc (next_free h)\<rparr>)"

definition np_zeros :: "nat \<Rightarrow> pyheap \<Rightarrow> addr \<times> pyheap" where
  \<comment> \<open>\<^verbatim>\<open>np.zeros(n)\<close>: a new array\<close>
  "np_zeros n h = alloc (NdArray (replicate n 0)) h"

definition array_setitem :: "addr \<Rightarrow> nat \<Rightarrow> real \<Rightarrow> pyheap \<Rightarrow> pyheap option" where
  \<comment> \<open>\<^verbatim>\<open>a[i] = x\<close> on the array at \<open>p\<close>, in place; \<open>None\<close> when Python raises (the index
      is out of range, or no array is there)\<close>
  "array_setitem p i x h =
     (case objects h p of
        Some (NdArray xs) \<Rightarrow>
          if i < length xs then Some (h\<lparr>objects := (objects h)(p \<mapsto> NdArray (xs[i := x]))\<rparr>)
          else None
      | _ \<Rightarrow> None)"

record AgentState_defaults =
  default_position :: addr
  default_rotation :: addr
  default_velocity :: addr
  default_angular_velocity :: addr
  default_force :: addr
  default_torque :: addr

record AgentState_slots =
  position_ref :: addr
  rotation_ref :: addr
  velocity_ref :: addr
  angular_velocity_ref :: addr
  force_ref :: addr
  torque_ref :: addr
  sensor_states_ref :: addr

definition AgentState_class :: "pyheap \<Rightarrow> AgentState_defaults \<times> pyheap" where
  \<comment> \<open>the class statement, lines 61-69: one object per default; \<^verbatim>\<open>sensor_states\<close> has a
      factory and no object\<close>
  "AgentState_class h0 =
     (let (p, h1) = np_zeros 3 h0;
          (r, h2) = alloc (NpQuaternion (Quaternion 1 0 0 0)) h1;
          (v, h3) = np_zeros 3 h2;
          (w, h4) = np_zeros 3 h3;
          (f, h5) = np_zeros 3 h4;
          (t, h6) = np_zeros 3 h5
      in (\<lparr>default_position = p, default_rotation = r, default_velocity = v,
           default_angular_velocity = w, default_force = f, default_torque = t\<rparr>, h6))"

definition AgentState_new :: "AgentState_defaults \<Rightarrow> pyheap \<Rightarrow> AgentState_slots \<times> pyheap" where
  \<comment> \<open>\<^verbatim>\<open>AgentState()\<close>: the stored defaults, and \<^verbatim>\<open>dict()\<close> called for \<^verbatim>\<open>sensor_states\<close>\<close>
  "AgentState_new cls h =
     (let (d, h1) = alloc (PyDict []) h
      in (\<lparr>position_ref = default_position cls, rotation_ref = default_rotation cls,
           velocity_ref = default_velocity cls,
           angular_velocity_ref = default_angular_velocity cls,
           force_ref = default_force cls, torque_ref = default_torque cls,
           sensor_states_ref = d\<rparr>, h1))"

record SixDOFPose_defaults =
  default_pose_position :: addr
  default_pose_rotation :: addr

record SixDOFPose_slots =
  pose_position_ref :: addr
  pose_rotation_ref :: addr

definition SixDOFPose_class :: "pyheap \<Rightarrow> SixDOFPose_defaults \<times> pyheap" where
  \<comment> \<open>the class statement, lines 49-58\<close>
  "SixDOFPose_class h0 =
     (let (p, h1) = np_zeros 3 h0;
          (r, h2) = alloc (NpQuaternion (Quaternion 1 0 0 0)) h1
      in (\<lparr>default_pose_position = p, default_pose_rotation = r\<rparr>, h2))"

definition SixDOFPose_new :: "SixDOFPose_defaults \<Rightarrow> pyheap \<Rightarrow> SixDOFPose_slots \<times> pyheap" where
  \<comment> \<open>\<^verbatim>\<open>SixDOFPose()\<close>\<close>
  "SixDOFPose_new cls h =
     (\<lparr>pose_position_ref = default_pose_position cls,
       pose_rotation_ref = default_pose_rotation cls\<rparr>, h)"

section \<open>Creating an agent, and the agents of the examples\<close>

definition Agent_init :: "body \<Rightarrow> AgentConfiguration \<Rightarrow> error option \<times> agent" where
  \<comment> \<open>\<^verbatim>\<open>Agent(scene_node, agent_config)\<close>, lines 122-131: an empty sensor suite, the sensors
      of the configuration, no initial state, nothing gripped\<close>
  "Agent_init b config =
     reconfigure
       \<lparr>agent_config = config, sensors = [], body = b, initial_state = None,
        gripped_object_id = - 1, gripped_object_transformation = None\<rparr>
       config True"

definition default_action_space :: "string \<rightharpoonup> ActionSpec" where
  \<comment> \<open>\<^verbatim>\<open>_default_action_space()\<close>\<close>
  "default_action_space =
     [''move_forward'' \<mapsto> \<lparr>name = ''move_forward'', actuation = Some \<lparr>amount = 0.25\<rparr>\<rparr>,
      ''turn_left'' \<mapsto> \<lparr>name = ''turn_left'', actuation = Some \<lparr>amount = 10\<rparr>\<rparr>,
      ''turn_right'' \<mapsto> \<lparr>name = ''turn_right'', actuation = Some \<lparr>amount = 10\<rparr>\<rparr>]"

definition identity_node :: scene_node where
  "identity_node = \<lparr>translation = zeros3, node_rotation = quat_identity\<rparr>"

definition example_sensor_spec :: SensorSpec where
  "example_sensor_spec =
     \<lparr>uuid = ''rgba_camera'', spec_position = (0, 1.5, 0), spec_orientation = quat_identity\<rparr>"

definition example_config :: AgentConfiguration where
  \<comment> \<open>the defaults of \<^verbatim>\<open>AgentConfiguration\<close>, with one camera at the height of the agent\<close>
  "example_config =
     \<lparr>height = 1.5, radius = 0.1, mass = 32, linear_acceleration = 20,
      angular_acceleration = 4 * pi, linear_friction = 0.5, angular_friction = 1,
      coefficient_of_restitution = 0, sensor_specifications = [example_sensor_spec],
      action_space = default_action_space, body_type = ''cylinder''\<rparr>"

definition example_agent :: agent where
  \<comment> \<open>an agent on a node right under the root of a live scene graph\<close>
  "example_agent =
     snd (Agent_init \<lparr>body_valid = True, parent_frame = identity_node, object = identity_node\<rparr>
            example_config)"

definition dead_agent :: agent where
  \<comment> \<open>the same agent once the owner of the scene graph is gone\<close>
  "dead_agent = example_agent\<lparr>body := (body example_agent)\<lparr>body_valid := False\<rparr>\<rparr>"

definition example_state :: AgentState where
  \<comment> \<open>the base at \<open>(5, 0, 1)\<close>, not rotated; the pose of a sensor the example agent has not\<close>
  "example_state =
     (AgentState_init (5, 0, 1) (RQuat quat_identity))
       \<lparr>sensor_states :=
          [(''ghost'', \<lparr>pose_position = (5, 1, 1), pose_rotation = PQuat quat_identity\<rparr>)]\<rparr>"

definition example_controls :: "unit ObjectControls" where
  \<comment> \<open>controls that know the three actions of the default action space and move nothing\<close>
  "example_controls =
     \<lparr>is_body_action = (\<lambda>n. n \<in> set [''move_forward'', ''turn_left'', ''turn_right'']),
      is_interact_action = (\<lambda>n. n = ''grab_release''),
      action = (\<lambda>p n nm a f. (n, False)),
      interact = (\<lambda>s rp p n nm a. (n, s, - 1))\<rparr>"

definition example_simulator :: "unit Simulator" where
  \<comment> \<open>a simulator with an empty scene\<close>
  "example_simulator =
     \<lparr>crosshair_direction = (\<lambda>s. (0, 0, - 1)),
      find_floor_position_under_crosshair = (\<lambda>s c p h. None),
      get_object_handle = (\<lambda>s i. []),
      add_object_by_handle = (\<lambda>s h. (0, s)),
      set_translation = (\<lambda>s v i. s),
      contact_test = (\<lambda>s i. False),
      update_object_in_scene = (\<lambda>s i j. s),
      get_transformation = (\<lambda>s i. identity_node),
      remove_object = (\<lambda>s i. s)\<rparr>"

definition turned_agent :: agent where
  \<comment> \<open>the example agent with its base at \<open>(5, 0, 1)\<close>, turned about the vertical axis by
      the unit quaternion \<open>(3 + 4j) / 5\<close>\<close>
  "turned_agent =
     example_agent\<lparr>body := (body example_agent)
       \<lparr>object := \<lparr>translation = (5, 0, 1), node_rotation = Quaternion (3 / 5) 0 (4 / 5) 0\<rparr>\<rparr>\<rparr>"



definition lifted_state :: AgentState where
  \<comment> \<open>the base at the origin, the camera two units above it\<close>
  "lifted_state =
     (AgentState_init (0, 0, 0) (RQuat quat_identity))
       \<lparr>sensor_states :=
          [(''rgba_camera'', \<lparr>pose_position = (0, 2, 0), pose_rotation = PQuat quat_identity\<rparr>)]\<rparr>"

definition lifted_agent :: agent where
  \<comment> \<open>the example agent after its camera was placed by hand, half a unit above its default\<close>
  "lifted_agent = fst (snd (set_state example_agent 0 lifted_state False False False))"

definition coefficient_state :: AgentState where
  \<comment> \<open>a rotation given by the coefficients \<open>[0, 3, 0, 4]\<close>, of norm 5\<close>
  "coefficient_state = AgentState_init (5, 0, 1) (RList (0, 3, 0, 4))"

definition raw_state :: AgentState where
  \<comment> \<open>the rotations of the base and of the camera both given by coefficients\<close>
  "raw_state =
     (AgentState_init (5, 0, 1) (RArray (0, 3, 0, 4)))
       \<lparr>sensor_states :=
          [(''rgba_camera'', \<lparr>pose_position = (6, 2, 1), pose_rotation = PList (0, 0, 0, 1)\<rparr>)]\<rparr>"

definition example_store :: store where
  \<comment> \<open>a store whose objects all hold \<open>raw_state\<close>\<close>
  "example_store = (\<lambda>r. raw_state)"

definition two_states :: "AgentState_slots \<times> AgentState_slots \<times> pyheap" where
  \<comment> \<open>\<^verbatim>\<open>s1 = AgentState(); s2 = AgentState()\<close> after the class statement\<close>
  "two_states =
     (let (cls, h0) = AgentState_class empty_heap;
          (s1, h1) = AgentState_new cls h0;
          (s2, h2) = AgentState_new cls h1
      in (s1, s2, h2))"

definition two_poses :: "SixDOFPose_slots \<times> SixDOFPose_slots \<times> pyheap" where
  \<comment> \<open>\<^verbatim>\<open>p1 = SixDOFPose(); p2 = SixDOFPose()\<close> after the class statement\<close>
  "two_poses =
     (let (cls, h0) = SixDOFPose_class empty_heap;
          (p1, h1) = SixDOFPose_new cls h0;
          (p2, h2) = SixDOFPose_new cls h1
      in (p1, p2, h2))"

definition depth_sensor_spec :: SensorSpec where
  "depth_sensor_spec =
     \<lparr>uuid = ''depth_camera'', spec_position = (0, 1.5, 0), spec_orientation = quat_identity\<rparr>"

definition two_camera_agent :: agent where
  \<comment> \<open>the example agent with a second camera that stands half a unit above its default\<close>
  "two_camera_agent =
     example_agent\<lparr>sensors :=
       sensors example_agent @
       [(''depth_camera'',
         \<lparr>sensor_valid = True,
          node = \<lparr>translation = (0, 2, 0), node_rotation = quat_identity\<rparr>,
          sensor_spec = depth_sensor_spec\<rparr>)]\<rparr>"

definition offset_agent :: agent where
  \<comment> \<open>the example agent on a node whose parent stands one unit from the root\<close>
  "offset_agent =
     example_agent\<lparr>body := (body example_agent)
       \<lparr>parent_frame := \<lparr>translation = (1, 0, 0), node_rotation = quat_identity\<rparr>\<rparr>\<rparr>"

definition zero_state :: AgentState where
  \<comment> \<open>a rotation given by four zero coefficients\<close>
  "zero_state = AgentState_init (5, 0, 1) (RList (0, 0, 0, 0))"

section \<open>Lemmas on vectors, quaternions and nodes\<close>

lemma quat_mul_identity_right: "quat_mul q quat_identity = q"
  by (cases q) (simp add: quat_identity_def)

lemma vec_add_zeros3_left: "vec_add zeros3 v = v"
  by (cases v) (simp add: zeros3_def)

lemma body_after_set_body_pose:
  "translation (object (set_body_pose p q b)) = p"
  "node_rotation (object (set_body_pose p q b)) = quat_to_magnum q"
  by (simp_all add: set_body_pose_def set_rotation_def translate_def reset_transformation_def
      vec_add_zeros3_left)

lemma quat_mul_identity_left: "quat_mul quat_identity q = q"
  by (cases q) (simp add: quat_identity_def)

lemma quat_rotate_vector_identity: "quat_rotate_vector quat_identity v = v"
  by (cases v) (simp add: quat_rotate_vector_def quat_identity_def)

lemma compose_identity_node: "compose identity_node n = n"
  by (cases n) (simp add: compose_def identity_node_def quat_rotate_vector_identity
      vec_add_zeros3_left quat_mul_identity_left)

lemma absolute_translation_under_root:
  "parent_frame b = identity_node \<Longrightarrow> absolute_translation b = translation (object b)"
  by (simp add: absolute_translation_def body_absolute_def compose_identity_node)

lemma set_body_pose_same:
  "set_body_pose (translation (object b)) (node_rotation (object b)) b = b"
  by (cases b, cases "object b")
     (simp add: set_body_pose_def set_rotation_def translate_def reset_transformation_def
        vec_add_zeros3_left quat_to_magnum_def)

lemma quat_norm_quat_from_coeffs:
  assumes "cs \<noteq> (0, 0, 0, 0)"
  shows "quat_norm (quat_from_coeffs cs) = 1"
proof -
  obtain x y z w where cs: "cs = (x, y, z, w)" by (cases cs)
  let ?s = "x * x + y * y + z * z + w * w"
  have "x \<noteq> 0 \<or> y \<noteq> 0 \<or> z \<noteq> 0 \<or> w \<noteq> 0" using assms by (simp add: cs)
  then have pos: "0 < ?s"
    by (metis add_pos_nonneg add_nonneg_pos add_nonneg_nonneg zero_le_square
        not_real_square_gt_zero)
  have sq: "sqrt ?s * sqrt ?s = ?s" using pos by simp
  have "quat_norm_sq (quat_from_coeffs cs) = (w * w + x * x + y * y + z * z) / (sqrt ?s * sqrt ?s)"
    by (simp add: cs Let_def add_divide_distrib)
  also have "\<dots> = 1" using pos by (simp add: sq algebra_simps)
  finally show ?thesis by (simp add: quat_norm_def)
qed

lemma example_agent_eq:
  "example_agent =
     \<lparr>agent_config = example_config,
      sensors = [(''rgba_camera'',
                  \<lparr>sensor_valid = True,
                   node = \<lparr>translation = (0, 1.5, 0), node_rotation = quat_identity\<rparr>,
                   sensor_spec = example_sensor_spec\<rparr>)],
      body = \<lparr>body_valid = True, parent_frame = identity_node, object = identity_node\<rparr>,
      initial_state = None, gripped_object_id = - 1, gripped_object_transformation = None\<rparr>"
  by (simp add: example_agent_def Agent_init_def reconfigure_def example_config_def
      sensor_suite_add_def CameraSensor_def set_transformation_from_spec_def
      example_sensor_spec_def)

section \<open>Lemmas on the loops over the sensors\<close>

lemma get_sensor_states_total:
  "list_all (\<lambda>e. sensor_valid (snd e)) ss \<Longrightarrow> \<exists>res. get_sensor_states b r ss acc = Inr res"
proof (induction ss arbitrary: acc)
  case Nil
  show ?case by simp
next
  case (Cons e ss)
  obtain k0 v0 where e: "e = (k0, v0)" by (cases e)
  from Cons.prems have v: "sensor_valid v0" and r: "list_all (\<lambda>e. sensor_valid (snd e)) ss"
    by (simp_all add: e)
  show ?case using v Cons.IH [OF r] by (simp add: e)
qed

lemma get_sensor_states_lookup:
  "distinct (map fst ss) \<Longrightarrow> get_sensor_states b r ss acc = Inr res \<Longrightarrow>
   map_of res k =
     (case map_of ss k of
        Some v \<Rightarrow>
          Some \<lparr>pose_position = sensor_absolute_translation b v,
                pose_rotation = PQuat (quat_from_magnum (quat_mul r (node_rotation (node v))))\<rparr>
      | None \<Rightarrow> map_of acc k)"
proof (induction ss arbitrary: acc)
  case Nil
  then show ?case by simp
next
  case (Cons e ss)
  obtain k0 v0 where e: "e = (k0, v0)" by (cases e)
  let ?acc = "AList.update k0
                \<lparr>pose_position = sensor_absolute_translation b v0,
                 pose_rotation = PQuat (quat_from_magnum (quat_mul r (node_rotation (node v0))))\<rparr>
                acc"
  from Cons.prems have d: "distinct (map fst ss)" and n: "k0 \<notin> fst ` set ss"
    by (auto simp: e)
  from Cons.prems(2) have r: "get_sensor_states b r ss ?acc = Inr res"
    by (simp add: e split: if_splits)
  have ih: "map_of res k =
     (case map_of ss k of
        Some v \<Rightarrow>
          Some \<lparr>pose_position = sensor_absolute_translation b v,
                pose_rotation = PQuat (quat_from_magnum (quat_mul r (node_rotation (node v))))\<rparr>
      | None \<Rightarrow> map_of ?acc k)"
    using d r by (rule Cons.IH)
  show ?case
  proof (cases "k = k0")
    case True
    then have "map_of ss k = None" using n by (simp add: map_of_eq_None_iff)
    then show ?thesis using ih True by (simp add: e update_conv')
  next
    case False
    then show ?thesis using ih by (simp add: e update_conv' split: option.splits)
  qed
qed

lemma place_sensors_unknown:
  "k \<in> fst ` set es \<Longrightarrow> map_of ss k = None \<Longrightarrow> fst (place_sensors q p es ss) = Some UnknownSensorError"
proof (induction es arbitrary: ss)
  case Nil
  then show ?case by simp
next
  case (Cons e es)
  obtain k' v where e: "e = (k', v)" by (cases e)
  show ?case
  proof (cases "map_of ss k'")
    case None
    then show ?thesis by (simp add: e)
  next
    case (Some s)
    with Cons.prems have ne: "k \<noteq> k'" by auto
    let ?v' = "v\<lparr>pose_rotation := PQuat (pose_quat (pose_rotation v))\<rparr>"
    let ?ss' = "AList.update k' (place_sensor q p ?v' s) ss"
    have m: "map_of ?ss' k = None" using ne Cons.prems(2) by (simp add: update_conv')
    have "k \<in> fst ` set es" using Cons.prems(1) ne by (auto simp: e)
    then have "fst (place_sensors q p es ?ss') = Some UnknownSensorError"
      using m by (rule Cons.IH)
    then show ?thesis using Some by (auto simp: e Let_def split: prod.splits)
  qed
qed


lemma place_sensors_dom:
  "(map_of (snd (snd (place_sensors q p es ss))) k = None) = (map_of ss k = None)"
proof (induction es arbitrary: ss)
  case Nil
  then show ?case by simp
next
  case (Cons e es)
  obtain k0 v0 where e: "e = (k0, v0)" by (cases e)
  show ?case
  proof (cases "map_of ss k0")
    case None
    then show ?thesis by (simp add: e)
  next
    case (Some s)
    then show ?thesis
      using Cons.IH
      by (simp add: e Let_def update_conv' case_prod_unfold)
  qed
qed


lemma place_sensors_succeeds:
  "\<forall>k \<in> fst ` set es. map_of ss k \<noteq> None \<Longrightarrow> fst (place_sensors q p es ss) = None"
proof (induction es arbitrary: ss)
  case Nil
  then show ?case by simp
next
  case (Cons e es)
  obtain k0 v0 where e: "e = (k0, v0)" by (cases e)
  from Cons.prems obtain s0 where s0: "map_of ss k0 = Some s0" by (auto simp: e)
  let ?ss = "AList.update k0
               (place_sensor q p (v0\<lparr>pose_rotation := PQuat (pose_quat (pose_rotation v0))\<rparr>) s0) ss"
  have "\<forall>k \<in> fst ` set es. map_of ?ss k \<noteq> None"
    using Cons.prems by (auto simp: e update_conv')
  then have "fst (place_sensors q p es ?ss) = None" by (rule Cons.IH)
  then show ?case using s0 by (simp add: e Let_def case_prod_unfold)
qed


lemma map_of_reset_pass:
  "map_of (if rs then map (\<lambda>(k, v). (k, set_transformation_from_spec v)) ss else ss) k
     = map_option (\<lambda>s. if rs then set_transformation_from_spec s else s) (map_of ss k)"
  by (cases rs) (simp_all add: map_of_map option.map_ident)

lemma set_state_explicit:
  assumes "body_valid (body a)"
  shows "fst (set_state a r state rs False ini)
           = fst (place_sensors (state_quat (rotation state)) (position state) (sensor_states state)
                   (if rs then map (\<lambda>(k, v). (k, set_transformation_from_spec v)) (sensors a)
                    else sensors a))"
    and "sensors (fst (snd (set_state a r state rs False ini)))
           = snd (snd (place_sensors (state_quat (rotation state)) (position state)
                        (sensor_states state)
                        (if rs then map (\<lambda>(k, v). (k, set_transformation_from_spec v)) (sensors a)
                         else sensors a)))"
    and "body (fst (snd (set_state a r state rs False ini)))
           = set_body_pose (position state) (state_quat (rotation state)) (body a)"
    and "sensor_states (snd (snd (set_state a r state rs False ini)))
           = fst (snd (place_sensors (state_quat (rotation state)) (position state)
                        (sensor_states state)
                        (if rs then map (\<lambda>(k, v). (k, set_transformation_from_spec v)) (sensors a)
                         else sensors a)))"
    and "rotation (snd (snd (set_state a r state rs False ini)))
           = RQuat (state_quat (rotation state))"
    and "initial_state (fst (snd (set_state a r state rs False ini)))
           = (if ini \<and> fst (set_state a r state rs False ini) = None then Some r
              else initial_state a)"
  using assms
  by (simp_all add: set_state_def Let_def split: prod.splits option.splits)

lemma get_state_returns:
  assumes "body_valid (body a)" and "list_all (\<lambda>e. sensor_valid (snd e)) (sensors a)"
  shows "\<exists>res. get_sensor_states (body a) (node_rotation (object (body a))) (sensors a) [] = Inr res
          \<and> get_state a
              = Inr ((AgentState_init (absolute_translation (body a))
                        (RQuat (quat_from_magnum (node_rotation (object (body a))))))
                       \<lparr>sensor_states := res\<rparr>)"
proof -
  obtain res where
    "get_sensor_states (body a) (node_rotation (object (body a))) (sensors a) [] = Inr res"
    using get_sensor_states_total [OF assms(2)] by blast
  then show ?thesis using assms(1) by (simp add: get_state_def AgentState_init_def)
qed

lemma reset_pass_valid:
  "list_all (\<lambda>e. sensor_valid (snd e)) ss \<Longrightarrow>
   list_all (\<lambda>e. sensor_valid (snd e)) (map (\<lambda>(k, v). (k, set_transformation_from_spec v)) ss)"
  by (induction ss) (simp_all add: set_transformation_from_spec_def case_prod_unfold)

lemma reset_pass_keys:
  "map fst (map (\<lambda>(k, v). (k, set_transformation_from_spec v)) ss) = map fst ss"
  by (induction ss) (simp_all add: case_prod_unfold)

lemma place_sensors_converted:
  "fst (place_sensors q p es ss) = None \<Longrightarrow>
   fst (snd (place_sensors q p es ss))
     = map (\<lambda>(k, v). (k, v\<lparr>pose_rotation := PQuat (pose_quat (pose_rotation v))\<rparr>)) es"
proof (induction es arbitrary: ss)
  case Nil
  then show ?case by simp
next
  case (Cons e es)
  obtain k0 v0 where e: "e = (k0, v0)" by (cases e)
  show ?case
  proof (cases "map_of ss k0")
    case None
    then show ?thesis using Cons.prems by (simp add: e)
  next
    case (Some s)
    let ?ss = "AList.update k0
                 (place_sensor q p (v0\<lparr>pose_rotation := PQuat (pose_quat (pose_rotation v0))\<rparr>) s) ss"
    from Cons.prems Some have "fst (place_sensors q p es ?ss) = None"
      by (simp add: e Let_def case_prod_unfold)
    then have "fst (snd (place_sensors q p es ?ss))
        = map (\<lambda>(k, v). (k, v\<lparr>pose_rotation := PQuat (pose_quat (pose_rotation v))\<rparr>)) es"
      by (rule Cons.IH)
    then show ?thesis using Some by (simp add: e Let_def case_prod_unfold)
  qed
qed

lemma set_state_body:
  assumes "body_valid (body a)"
  shows "body (fst (snd (set_state a r state rs infer ini)))
           = set_body_pose (position state) (state_quat (rotation state)) (body a)"
    and "rotation (snd (snd (set_state a r state rs infer ini)))
           = RQuat (state_quat (rotation state))"
proof -
  show "body (fst (snd (set_state a r state rs infer ini)))
           = set_body_pose (position state) (state_quat (rotation state)) (body a)"
  proof (cases infer)
    case True
    then show ?thesis using assms by (simp add: set_state_def Let_def)
  next
    case False
    then show ?thesis using set_state_explicit(3) [OF assms] by simp
  qed
  show "rotation (snd (snd (set_state a r state rs infer ini)))
           = RQuat (state_quat (rotation state))"
  proof (cases infer)
    case True
    then show ?thesis using assms by (simp add: set_state_def Let_def)
  next
    case False
    then show ?thesis using set_state_explicit(5) [OF assms] by simp
  qed
qed

lemma set_state_inferred:
  assumes "body_valid (body a)"
  shows "fst (set_state a r state rs True ini) = None"
    and "sensor_states (snd (snd (set_state a r state rs True ini))) = sensor_states state"
    and "initial_state (fst (snd (set_state a r state rs True ini)))
           = (if ini then Some r else initial_state a)"
  using assms by (simp_all add: set_state_def Let_def)

lemma lifted_agent_eq:
  "lifted_agent =
     \<lparr>agent_config = example_config,
      sensors = [(''rgba_camera'',
                  \<lparr>sensor_valid = True,
                   node = \<lparr>translation = (0, 2, 0), node_rotation = quat_identity\<rparr>,
                   sensor_spec = example_sensor_spec\<rparr>)],
      body = \<lparr>body_valid = True, parent_frame = identity_node, object = identity_node\<rparr>,
      initial_state = None, gripped_object_id = - 1, gripped_object_transformation = None\<rparr>"
  by (simp add: lifted_agent_def lifted_state_def AgentState_init_def example_agent_eq
      set_state_def Let_def set_body_pose_def place_sensor_def set_rotation_def translate_def
      reset_transformation_def identity_node_def quat_rotate_vector_def quat_identity_def
      quat_to_magnum_def zeros3_def)

lemma get_state_lifted_agent:
  "get_state lifted_agent =
     Inr ((AgentState_init (0, 0, 0) (RQuat quat_identity))
            \<lparr>sensor_states :=
               [(''rgba_camera'',
                 \<lparr>pose_position = (0, 2, 0), pose_rotation = PQuat quat_identity\<rparr>)]\<rparr>)"
  by (simp add: lifted_agent_eq get_state_def AgentState_init_def absolute_translation_def
      body_absolute_def compose_identity_node sensor_absolute_translation_def compose_def
      identity_node_def quat_rotate_vector_def quat_identity_def quat_from_magnum_def zeros3_def)

lemma two_camera_agent_eq:
  "two_camera_agent =
     \<lparr>agent_config = example_config,
      sensors = [(''rgba_camera'',
                  \<lparr>sensor_valid = True,
                   node = \<lparr>translation = (0, 1.5, 0), node_rotation = quat_identity\<rparr>,
                   sensor_spec = example_sensor_spec\<rparr>),
                 (''depth_camera'',
                  \<lparr>sensor_valid = True,
                   node = \<lparr>translation = (0, 2, 0), node_rotation = quat_identity\<rparr>,
                   sensor_spec = depth_sensor_spec\<rparr>)],
      body = \<lparr>body_valid = True, parent_frame = identity_node, object = identity_node\<rparr>,
      initial_state = None, gripped_object_id = - 1, gripped_object_transformation = None\<rparr>"
  by (simp add: two_camera_agent_def example_agent_eq)

section \<open>Errors raised before anything is changed\<close>

text \<open>
  Claim C6. Each of \<open>reconfigure\<close>, \<open>act\<close>, \<open>get_state\<close> and \<open>set_state\<close> checks first that
  the owner of the body's node is alive. On an agent whose scene graph is gone the call
  raises \<open>InvalidObjectError\<close> and leaves the agent, the simulator and the state object
  passed in as they were.
\<close>

theorem invalid_body_raises_first:
  assumes "\<not> body_valid (body a)"
  shows "reconfigure a config reconfigure_sensors = (Some InvalidObjectError, a)
       \<and> act ctl api a sim action_id = Some (Inl InvalidObjectError, a, sim)
       \<and> get_state a = Inl InvalidObjectError
       \<and> set_state a r state reset_sensors infer_sensor_states is_initial
           = (Some InvalidObjectError, a, state)"
  using assms by (simp add: reconfigure_def act_def get_state_def set_state_def)

theorem invalid_body_raises_first_witness:
  "\<not> body_valid (body dead_agent)
   \<and> reconfigure dead_agent example_config True = (Some InvalidObjectError, dead_agent)
   \<and> act example_controls example_simulator dead_agent (Some ()) ''move_forward''
       = Some (Inl InvalidObjectError, dead_agent, Some ())
   \<and> get_state dead_agent = Inl InvalidObjectError
   \<and> set_state dead_agent 0 example_state True True False
       = (Some InvalidObjectError, dead_agent, example_state)"
proof -
  have h: "\<not> body_valid (body dead_agent)" by (simp add: dead_agent_def)
  show ?thesis
    using h invalid_body_raises_first [OF h, of example_config True example_controls
        example_simulator "Some ()" "''move_forward''" 0 example_state True True False]
    by simp
qed

text \<open>
  Claim C5. For an action identifier that is not a key of the action space of the current
  configuration, \<open>act\<close> raises and changes neither the agent (its body node and sensors
  included) nor the simulator; on a live agent the exception is \<open>UnknownActionError\<close>.
\<close>

theorem act_unknown_action:
  assumes "action_space (agent_config a) action_id = None"
  shows "(\<exists>e. act ctl api a sim action_id = Some (Inl e, a, sim))
       \<and> (body_valid (body a) \<longrightarrow> act ctl api a sim action_id = Some (Inl UnknownActionError, a, sim))"
  using assms by (simp add: act_def)

theorem act_unknown_action_witness:
  "action_space (agent_config example_agent) ''undefined_action'' = None
   \<and> body_valid (body example_agent)
   \<and> act example_controls example_simulator example_agent (Some ()) ''undefined_action''
       = Some (Inl UnknownActionError, example_agent, Some ())"
proof -
  have h: "action_space (agent_config example_agent) ''undefined_action'' = None"
    by (simp add: example_agent_eq example_config_def default_action_space_def)
  have v: "body_valid (body example_agent)" by (simp add: example_agent_eq)
  show ?thesis
    using h v act_unknown_action [OF h, of example_controls example_simulator "Some ()"]
    by simp
qed

section \<open>What reconfiguring leaves alone\<close>

text \<open>
  Claim C8. On a live agent, \<open>reconfigure\<close> without \<open>reconfigure_sensors\<close> replaces the
  configuration and nothing else: every sensor stays attached with the transformation it
  had. With either value of the flag the body, and so the base pose, is unchanged.
\<close>

theorem reconfigure_frame:
  "(body_valid (body a) \<longrightarrow>
      reconfigure a config False = (None, a\<lparr>agent_config := config\<rparr>)
      \<and> sensors (snd (reconfigure a config False)) = sensors a)
   \<and> body (snd (reconfigure a config reconfigure_sensors)) = body a"
  by (simp add: reconfigure_def Let_def)

theorem reconfigure_frame_witness:
  "body_valid (body example_agent)
   \<and> reconfigure example_agent (example_config\<lparr>height := 2\<rparr>) False
       = (None, example_agent\<lparr>agent_config := example_config\<lparr>height := 2\<rparr>\<rparr>)
   \<and> sensors (snd (reconfigure example_agent (example_config\<lparr>height := 2\<rparr>) False))
       = sensors example_agent
   \<and> body (snd (reconfigure example_agent (example_config\<lparr>height := 2\<rparr>) True))
       = body example_agent"
proof -
  have v: "body_valid (body example_agent)" by (simp add: example_agent_eq)
  show ?thesis
    using v reconfigure_frame [of example_agent "example_config\<lparr>height := 2\<rparr>" True]
    by simp
qed

section \<open>Setting the state\<close>

text \<open>
  Claim C4. On a live agent, \<open>set_state\<close> without \<open>infer_sensor_states\<close> and with a state
  that names a sensor the agent has not raises \<open>UnknownSensorError\<close>. The agent it leaves
  has the base pose of the state: the body was reset, translated and rotated before the
  sensors were looked at, and nothing undoes that. The initial state is not recorded.
\<close>

theorem set_state_unknown_sensor:
  assumes "body_valid (body a)"
      and "k \<in> fst ` set (sensor_states state)"
      and "map_of (sensors a) k = None"
  shows "\<exists>a' state'.
           set_state a r state reset_sensors False is_initial = (Some UnknownSensorError, a', state')
         \<and> translation (object (body a')) = position state
         \<and> node_rotation (object (body a')) = quat_to_magnum (state_quat (rotation state))
         \<and> initial_state a' = initial_state a"
proof -
  let ?ss = "if reset_sensors
             then map (\<lambda>(k, v). (k, set_transformation_from_spec v)) (sensors a)
             else sensors a"
  let ?r = "set_state a r state reset_sensors False is_initial"
  have "map_of ?ss k = None"
    using assms(3) by (simp add: map_of_reset_pass)
  with assms(2)
  have "fst (place_sensors (state_quat (rotation state)) (position state) (sensor_states state) ?ss)
          = Some UnknownSensorError"
    by (rule place_sensors_unknown)
  then have e: "fst ?r = Some UnknownSensorError"
    by (simp add: set_state_explicit(1) [OF assms(1)])
  have "?r = (Some UnknownSensorError, fst (snd ?r), snd (snd ?r))"
    using e by (metis prod.collapse)
  moreover have "translation (object (body (fst (snd ?r)))) = position state"
    and "node_rotation (object (body (fst (snd ?r)))) = quat_to_magnum (state_quat (rotation state))"
    by (simp_all add: set_state_explicit(3) [OF assms(1)] body_after_set_body_pose)
  moreover have "initial_state (fst (snd ?r)) = initial_state a"
    using e by (simp add: set_state_explicit(6) [OF assms(1)])
  ultimately show ?thesis by blast
qed

theorem set_state_unknown_sensor_witness:
  "body_valid (body example_agent)
   \<and> ''ghost'' \<in> fst ` set (sensor_states example_state)
   \<and> map_of (sensors example_agent) ''ghost'' = None
   \<and> (\<exists>a' state'.
         set_state example_agent 0 example_state True False True
           = (Some UnknownSensorError, a', state')
       \<and> translation (object (body a')) = (5, 0, 1)
       \<and> node_rotation (object (body a')) = quat_identity
       \<and> initial_state a' = None)"
proof -
  have v: "body_valid (body example_agent)" by (simp add: example_agent_eq)
  have k: "''ghost'' \<in> fst ` set (sensor_states example_state)"
    by (simp add: example_state_def)
  have n: "map_of (sensors example_agent) ''ghost'' = None" by (simp add: example_agent_eq)
  have p: "position example_state = (5, 0, 1)"
    and q: "quat_to_magnum (state_quat (rotation example_state)) = quat_identity"
    and i: "initial_state example_agent = None"
    by (simp_all add: example_state_def AgentState_init_def quat_to_magnum_def example_agent_eq)
  show ?thesis
    using v k n set_state_unknown_sensor [OF v k n, of 0 True True]
    unfolding p q i by blast
qed




section \<open>Reading the state\<close>

text \<open>
  Claim C2. On a live agent whose sensors are live, \<open>get_state\<close> returns a state that holds,
  for every attached sensor, the absolute position of the sensor's node and the rotation
  of the base composed with the local rotation of the sensor's node, in that order. When
  the local rotation is the identity, the sensor's rotation is the rotation of the base.
\<close>

theorem get_state_sensor_pose:
  assumes "body_valid (body a)"
      and "list_all (\<lambda>e. sensor_valid (snd e)) (sensors a)"
      and "distinct (map fst (sensors a))"
      and "map_of (sensors a) k = Some v"
  shows "\<exists>state p.
           get_state a = Inr state
         \<and> map_of (sensor_states state) k = Some p
         \<and> pose_position p = sensor_absolute_translation (body a) v
         \<and> pose_rotation p =
             PQuat (quat_from_magnum
                      (quat_mul (node_rotation (object (body a))) (node_rotation (node v))))
         \<and> (node_rotation (node v) = quat_identity
              \<longrightarrow> RQuat (pose_quat (pose_rotation p)) = rotation state)"
proof -
  let ?r = "node_rotation (object (body a))"
  obtain res where res: "get_sensor_states (body a) ?r (sensors a) [] = Inr res"
    using get_sensor_states_total [OF assms(2)] by blast
  have "map_of res k =
          Some \<lparr>pose_position = sensor_absolute_translation (body a) v,
                pose_rotation = PQuat (quat_from_magnum (quat_mul ?r (node_rotation (node v))))\<rparr>"
    using get_sensor_states_lookup [OF assms(3) res, of k] assms(4) by simp
  then show ?thesis
    using assms(1) res
    by (simp add: get_state_def AgentState_init_def quat_mul_identity_right)
qed

theorem get_state_sensor_pose_witness:
  "body_valid (body turned_agent)
   \<and> list_all (\<lambda>e. sensor_valid (snd e)) (sensors turned_agent)
   \<and> distinct (map fst (sensors turned_agent))
   \<and> (\<exists>state p.
         get_state turned_agent = Inr state
       \<and> map_of (sensor_states state) ''rgba_camera'' = Some p
       \<and> pose_position p = (5, 1.5, 1)
       \<and> pose_rotation p = PQuat (Quaternion (3 / 5) 0 (4 / 5) 0)
       \<and> rotation state = RQuat (Quaternion (3 / 5) 0 (4 / 5) 0))"
proof -
  let ?v = "\<lparr>sensor_valid = True,
             node = \<lparr>translation = (0, 1.5, 0), node_rotation = quat_identity\<rparr>,
             sensor_spec = example_sensor_spec\<rparr>"
  have h1: "body_valid (body turned_agent)"
    and h2: "list_all (\<lambda>e. sensor_valid (snd e)) (sensors turned_agent)"
    and h3: "distinct (map fst (sensors turned_agent))"
    and h4: "map_of (sensors turned_agent) ''rgba_camera'' = Some ?v"
    by (simp_all add: turned_agent_def example_agent_eq)
  have t: "sensor_absolute_translation (body turned_agent) ?v = (5, 1.5, 1)"
    by (simp add: turned_agent_def example_agent_eq sensor_absolute_translation_def
        body_absolute_def compose_def identity_node_def quat_rotate_vector_def
        quat_identity_def zeros3_def)
  have r: "quat_from_magnum (quat_mul (node_rotation (object (body turned_agent)))
             (node_rotation (node ?v))) = Quaternion (3 / 5) 0 (4 / 5) 0"
    by (simp add: turned_agent_def example_agent_eq quat_from_magnum_def quat_identity_def)
  from get_state_sensor_pose [OF h1 h2 h3 h4] obtain state p where
    "get_state turned_agent = Inr state"
    "map_of (sensor_states state) ''rgba_camera'' = Some p"
    "pose_position p = sensor_absolute_translation (body turned_agent) ?v"
    "pose_rotation p = PQuat (quat_from_magnum
        (quat_mul (node_rotation (object (body turned_agent))) (node_rotation (node ?v))))"
    "RQuat (pose_quat (pose_rotation p)) = rotation state"
    by auto
  then have "get_state turned_agent = Inr state
       \<and> map_of (sensor_states state) ''rgba_camera'' = Some p
       \<and> pose_position p = (5, 1.5, 1)
       \<and> pose_rotation p = PQuat (Quaternion (3 / 5) 0 (4 / 5) 0)
       \<and> rotation state = RQuat (Quaternion (3 / 5) 0 (4 / 5) 0)"
    unfolding t r by auto
  then show ?thesis using h1 h2 h3 by blast
qed

section \<open>Setting the state that was read\<close>

text \<open>
  Claim C3, as amended. Take a live agent with live sensors whose body node hangs under
  a parent with the identity transformation. \<open>set_state\<close> with the default flags, given
  the state \<open>get_state\<close> has just returned, returns and leaves the state object as it was.
  It leaves the body as it was and puts every sensor at the default of its specification,
  wherever the sensor stood. The state read afterwards has the same base position and
  rotation; it reports every sensor at its default, which for a sensor that stood at its
  default is the pose read before.
\<close>

theorem set_state_get_state_roundtrip:
  assumes "body_valid (body a)"
      and "list_all (\<lambda>e. sensor_valid (snd e)) (sensors a)"
      and "distinct (map fst (sensors a))"
      and "parent_frame (body a) = identity_node"
  shows "\<exists>state a' state'.
           get_state a = Inr state
         \<and> set_state a r state True True False = (None, a', state)
         \<and> body a' = body a
         \<and> (\<forall>k. map_of (sensors a') k
                  = map_option set_transformation_from_spec (map_of (sensors a) k))
         \<and> get_state a' = Inr state'
         \<and> position state' = position state
         \<and> rotation state' = rotation state
         \<and> (\<forall>k v. map_of (sensors a) k = Some v \<longrightarrow>
               map_of (sensor_states state') k
                 = Some \<lparr>pose_position =
                           sensor_absolute_translation (body a) (set_transformation_from_spec v),
                         pose_rotation =
                           PQuat (quat_from_magnum
                                    (quat_mul (node_rotation (object (body a)))
                                       (spec_orientation (sensor_spec v))))\<rparr>)
         \<and> (\<forall>k v. map_of (sensors a) k = Some v \<and> node v = node (set_transformation_from_spec v)
               \<longrightarrow> map_of (sensor_states state') k = map_of (sensor_states state) k)"
proof -
  let ?rot = "node_rotation (object (body a))"
  let ?reset = "map (\<lambda>(k, v). (k, set_transformation_from_spec v)) (sensors a)"
  let ?a' = "a\<lparr>sensors := ?reset\<rparr>"
  from get_state_returns [OF assms(1,2)] obtain res where
    res: "get_sensor_states (body a) ?rot (sensors a) [] = Inr res" and
    st: "get_state a
           = Inr ((AgentState_init (absolute_translation (body a)) (RQuat (quat_from_magnum ?rot)))
                    \<lparr>sensor_states := res\<rparr>)"
    by blast
  let ?state = "(AgentState_init (absolute_translation (body a)) (RQuat (quat_from_magnum ?rot)))
                  \<lparr>sensor_states := res\<rparr>"
  have set: "set_state a r ?state True True False = (None, ?a', ?state)"
    using assms(1)
    by (simp add: set_state_def Let_def AgentState_init_def quat_from_magnum_def
        absolute_translation_under_root [OF assms(4)] set_body_pose_same)
  have bd: "body ?a' = body a" by simp
  have rs: "map_of (sensors ?a') k
              = map_option set_transformation_from_spec (map_of (sensors a) k)" for k
    by (simp add: map_of_map)
  have v': "body_valid (body ?a')" using assms(1) by simp
  have l': "list_all (\<lambda>e. sensor_valid (snd e)) (sensors ?a')"
    using reset_pass_valid [OF assms(2)] by simp
  from get_state_returns [OF v' l'] obtain res' where
    res': "get_sensor_states (body a) ?rot ?reset [] = Inr res'" and
    st': "get_state ?a'
            = Inr ((AgentState_init (absolute_translation (body a)) (RQuat (quat_from_magnum ?rot)))
                     \<lparr>sensor_states := res'\<rparr>)"
    by auto
  let ?state' = "(AgentState_init (absolute_translation (body a)) (RQuat (quat_from_magnum ?rot)))
                   \<lparr>sensor_states := res'\<rparr>"
  have d': "distinct (map fst ?reset)" using assms(3) by (simp only: reset_pass_keys)
  have after: "map_of (sensor_states ?state') k
        = Some \<lparr>pose_position = sensor_absolute_translation (body a) (set_transformation_from_spec v),
                pose_rotation = PQuat (quat_from_magnum
                  (quat_mul ?rot (spec_orientation (sensor_spec v))))\<rparr>"
    if "map_of (sensors a) k = Some v" for k v
  proof -
    have "map_of ?reset k = Some (set_transformation_from_spec v)"
      using that by (simp add: map_of_map)
    then have "map_of res' k
        = Some \<lparr>pose_position = sensor_absolute_translation (body a) (set_transformation_from_spec v),
                pose_rotation = PQuat (quat_from_magnum
                  (quat_mul ?rot (node_rotation (node (set_transformation_from_spec v)))))\<rparr>"
      using get_sensor_states_lookup [OF d' res', of k] by simp
    then show ?thesis by (simp add: set_transformation_from_spec_def)
  qed
  have sens: "map_of (sensor_states ?state') k = map_of (sensor_states ?state) k"
    if "map_of (sensors a) k = Some v" and "node v = node (set_transformation_from_spec v)"
    for k v
  proof -
    have "map_of res k
        = Some \<lparr>pose_position = sensor_absolute_translation (body a) v,
                pose_rotation = PQuat (quat_from_magnum (quat_mul ?rot (node_rotation (node v))))\<rparr>"
      using get_sensor_states_lookup [OF assms(3) res, of k] that(1) by simp
    moreover have "sensor_absolute_translation (body a) (set_transformation_from_spec v)
                     = sensor_absolute_translation (body a) v"
      using that(2) by (simp add: sensor_absolute_translation_def)
    moreover have "node_rotation (node v) = spec_orientation (sensor_spec v)"
      using that(2) by (simp add: set_transformation_from_spec_def)
    ultimately show ?thesis using after [OF that(1)] by simp
  qed
  have "position ?state' = position ?state" and "rotation ?state' = rotation ?state"
    by simp_all
  with st set bd rs st' after sens show ?thesis by blast
qed

theorem set_state_get_state_roundtrip_witness:
  "body_valid (body two_camera_agent)
   \<and> list_all (\<lambda>e. sensor_valid (snd e)) (sensors two_camera_agent)
   \<and> distinct (map fst (sensors two_camera_agent))
   \<and> parent_frame (body two_camera_agent) = identity_node
   \<and> (\<exists>state a' state'.
         get_state two_camera_agent = Inr state
       \<and> set_state two_camera_agent 0 state True True False = (None, a', state)
       \<and> body a' = body two_camera_agent
       \<and> get_state a' = Inr state'
       \<and> position state' = position state
       \<and> rotation state' = rotation state
       \<and> map_of (sensor_states state') ''rgba_camera''
           = map_of (sensor_states state) ''rgba_camera''
       \<and> map_of (sensors a') ''depth_camera''
           = Some \<lparr>sensor_valid = True,
                   node = \<lparr>translation = (0, 1.5, 0), node_rotation = quat_identity\<rparr>,
                   sensor_spec = depth_sensor_spec\<rparr>
       \<and> map_of (sensor_states state') ''depth_camera''
           = Some \<lparr>pose_position = (0, 1.5, 0), pose_rotation = PQuat quat_identity\<rparr>)"
proof -
  let ?v = "\<lparr>sensor_valid = True,
             node = \<lparr>translation = (0, 1.5, 0), node_rotation = quat_identity\<rparr>,
             sensor_spec = example_sensor_spec\<rparr>"
  let ?d = "\<lparr>sensor_valid = True,
             node = \<lparr>translation = (0, 2, 0), node_rotation = quat_identity\<rparr>,
             sensor_spec = depth_sensor_spec\<rparr>"
  have h1: "body_valid (body two_camera_agent)"
    and h2: "list_all (\<lambda>e. sensor_valid (snd e)) (sensors two_camera_agent)"
    and h3: "distinct (map fst (sensors two_camera_agent))"
    and h4: "parent_frame (body two_camera_agent) = identity_node"
    and k: "map_of (sensors two_camera_agent) ''rgba_camera'' = Some ?v"
    and kd: "map_of (sensors two_camera_agent) ''depth_camera'' = Some ?d"
    by (simp_all add: two_camera_agent_eq)
  have n: "node ?v = node (set_transformation_from_spec ?v)"
    by (simp add: set_transformation_from_spec_def example_sensor_spec_def)
  have rd: "set_transformation_from_spec ?d
              = \<lparr>sensor_valid = True,
                 node = \<lparr>translation = (0, 1.5, 0), node_rotation = quat_identity\<rparr>,
                 sensor_spec = depth_sensor_spec\<rparr>"
    by (simp add: set_transformation_from_spec_def depth_sensor_spec_def)
  have pd: "\<lparr>pose_position =
               sensor_absolute_translation (body two_camera_agent) (set_transformation_from_spec ?d),
             pose_rotation =
               PQuat (quat_from_magnum
                        (quat_mul (node_rotation (object (body two_camera_agent)))
                           (spec_orientation (sensor_spec ?d))))\<rparr>
            = \<lparr>pose_position = (0, 1.5, 0), pose_rotation = PQuat quat_identity\<rparr>"
    by (simp add: set_transformation_from_spec_def two_camera_agent_eq
        sensor_absolute_translation_def body_absolute_def
        compose_identity_node compose_def identity_node_def quat_rotate_vector_identity
        vec_add_zeros3_left quat_mul_identity_left quat_from_magnum_def depth_sensor_spec_def)
  from set_state_get_state_roundtrip [OF h1 h2 h3 h4, of 0] obtain state a' state' where
    c: "get_state two_camera_agent = Inr state"
       "set_state two_camera_agent 0 state True True False = (None, a', state)"
       "body a' = body two_camera_agent"
       "get_state a' = Inr state'"
       "position state' = position state"
       "rotation state' = rotation state"
    and r: "\<forall>k. map_of (sensors a') k
                 = map_option set_transformation_from_spec (map_of (sensors two_camera_agent) k)"
    and p: "\<forall>k v. map_of (sensors two_camera_agent) k = Some v \<longrightarrow>
               map_of (sensor_states state') k
                 = Some \<lparr>pose_position =
                           sensor_absolute_translation (body two_camera_agent)
                             (set_transformation_from_spec v),
                         pose_rotation =
                           PQuat (quat_from_magnum
                                    (quat_mul (node_rotation (object (body two_camera_agent)))
                                       (spec_orientation (sensor_spec v))))\<rparr>"
    and s: "\<forall>k v. map_of (sensors two_camera_agent) k = Some v
             \<and> node v = node (set_transformation_from_spec v)
           \<longrightarrow> map_of (sensor_states state') k = map_of (sensor_states state) k"
    by blast
  have 1: "map_of (sensor_states state') ''rgba_camera''
             = map_of (sensor_states state) ''rgba_camera''"
    using s k n by blast
  have 2: "map_of (sensors a') ''depth_camera''
             = Some \<lparr>sensor_valid = True,
                     node = \<lparr>translation = (0, 1.5, 0), node_rotation = quat_identity\<rparr>,
                     sensor_spec = depth_sensor_spec\<rparr>"
    using r kd rd by simp
  have 3: "map_of (sensor_states state') ''depth_camera''
             = Some \<lparr>pose_position = (0, 1.5, 0), pose_rotation = PQuat quat_identity\<rparr>"
    using p kd pd by simp
  show ?thesis using h1 h2 h3 h4 c 1 2 3 by blast
qed

text \<open>
  The claim as stated fails in two ways. \<open>reset_sensors\<close> is among the default flags, so
  the camera placed two units above the base is reported one and a half units above it
  after the state read is set again. And \<open>get_state\<close> reads the absolute position of the
  body while \<open>set_state\<close> translates the body's node by it, relative to the parent: under
  a parent that stands one unit from the root, the base read at \<open>(1, 0, 0)\<close> is read at
  \<open>(2, 0, 0)\<close> afterwards.
\<close>

theorem set_state_get_state_counterexample:
  "get_state lifted_agent = Inr lifted_state
   \<and> set_state lifted_agent 1 lifted_state True True False = (None, example_agent, lifted_state)
   \<and> map_of (sensor_states lifted_state) ''rgba_camera''
       = Some \<lparr>pose_position = (0, 2, 0), pose_rotation = PQuat quat_identity\<rparr>
   \<and> map_of (sensor_states (projr (get_state example_agent))) ''rgba_camera''
       = Some \<lparr>pose_position = (0, 1.5, 0), pose_rotation = PQuat quat_identity\<rparr>
   \<and> get_state example_agent \<noteq> Inr lifted_state
   \<and> position (projr (get_state offset_agent)) = (1, 0, 0)
   \<and> fst (set_state offset_agent 1 (projr (get_state offset_agent)) True True False) = None
   \<and> position (projr (get_state (fst (snd
         (set_state offset_agent 1 (projr (get_state offset_agent)) True True False)))))
       = (2, 0, 0)"
  by (simp add: get_state_lifted_agent lifted_state_def lifted_agent_eq example_agent_eq
      offset_agent_def
      get_state_def AgentState_init_def absolute_translation_def
      body_absolute_def compose_identity_node sensor_absolute_translation_def compose_def
      identity_node_def quat_rotate_vector_def quat_identity_def quat_from_magnum_def zeros3_def
      set_state_def Let_def set_body_pose_def set_rotation_def translate_def
      reset_transformation_def quat_to_magnum_def set_transformation_from_spec_def
      example_sensor_spec_def)

section \<open>Rotations given by coefficients\<close>

text \<open>
  Claim C7, as amended. On a live agent, when the rotation of the state is a sequence or
  an array of coefficients, not all zero, \<open>set_state\<close> replaces it by the quaternion
  \<open>quat_from_coeffs\<close> makes of them, which has norm 1, and that quaternion is the rotation
  the body node gets.
\<close>

theorem set_state_normalizes_coefficients:
  assumes "body_valid (body a)"
      and "rotation state = RList cs \<or> rotation state = RArray cs"
      and "cs \<noteq> (0, 0, 0, 0)"
  shows "node_rotation (object (body (fst (snd (set_state a r state rs infer ini)))))
           = quat_to_magnum (quat_from_coeffs cs)
       \<and> quat_norm (node_rotation (object (body (fst (snd (set_state a r state rs infer ini)))))) = 1
       \<and> rotation (snd (snd (set_state a r state rs infer ini))) = RQuat (quat_from_coeffs cs)
       \<and> quat_norm (quat_from_coeffs cs) = 1"
proof -
  have q: "state_quat (rotation state) = quat_from_coeffs cs" using assms(2) by auto
  show ?thesis
    by (simp add: set_state_body [OF assms(1)] q body_after_set_body_pose quat_to_magnum_def
        quat_norm_quat_from_coeffs [OF assms(3)])
qed

theorem set_state_normalizes_coefficients_witness:
  "body_valid (body example_agent)
   \<and> rotation coefficient_state = RList (0, 3, 0, 4)
   \<and> (0, 3, 0, 4) \<noteq> (0 :: real, 0 :: real, 0 :: real, 0 :: real)
   \<and> node_rotation (object (body (fst (snd
         (set_state example_agent 0 coefficient_state True True False)))))
       = Quaternion (4 / 5) 0 (3 / 5) 0
   \<and> quat_norm (node_rotation (object (body (fst (snd
         (set_state example_agent 0 coefficient_state True True False)))))) = 1
   \<and> rotation (snd (snd (set_state example_agent 0 coefficient_state True True False)))
       = RQuat (Quaternion (4 / 5) 0 (3 / 5) 0)"
proof -
  have h1: "body_valid (body example_agent)" by (simp add: example_agent_eq)
  have h2: "rotation coefficient_state = RList (0, 3, 0, 4)
            \<or> rotation coefficient_state = RArray (0, 3, 0, 4)"
    by (simp add: coefficient_state_def AgentState_init_def)
  have h3: "(0, 3, 0, 4) \<noteq> (0 :: real, 0 :: real, 0 :: real, 0 :: real)" by simp
  have "sqrt (25 :: real) = 5" by (rule real_sqrt_unique) simp_all
  then have c: "quat_from_coeffs (0, 3, 0, 4) = Quaternion (4 / 5) 0 (3 / 5) 0"
    by simp
  have m: "quat_to_magnum (Quaternion (4 / 5) 0 (3 / 5) 0) = Quaternion (4 / 5) 0 (3 / 5) 0"
    by (simp add: quat_to_magnum_def)
  show ?thesis
    using h1 h2 set_state_normalizes_coefficients [OF h1 h2 h3, of 0 True True False]
    unfolding c m by (simp add: coefficient_state_def AgentState_init_def)
qed

text \<open>
  The claim as stated, for any coefficients, fails for four zeros: no division makes a
  unit quaternion of them. The call returns, and the rotation the body node gets has
  norm 0 (in Python the division gives four times not-a-number, whose norm is not 1
  either).
\<close>

theorem set_state_normalizes_coefficients_counterexample:
  "body_valid (body example_agent)
   \<and> rotation zero_state = RList (0, 0, 0, 0)
   \<and> fst (set_state example_agent 0 zero_state True True False) = None
   \<and> node_rotation (object (body (fst (snd
         (set_state example_agent 0 zero_state True True False)))))
       = Quaternion 0 0 0 0
   \<and> quat_norm (node_rotation (object (body (fst (snd
         (set_state example_agent 0 zero_state True True False)))))) = 0
   \<and> quat_norm (node_rotation (object (body (fst (snd
         (set_state example_agent 0 zero_state True True False)))))) \<noteq> 1"
  by (simp add: zero_state_def AgentState_init_def example_agent_eq set_state_def Let_def
      set_body_pose_def set_rotation_def translate_def reset_transformation_def
      quat_to_magnum_def quat_norm_def)

section \<open>What the call does to the state object\<close>

text \<open>
  Claim C10, as amended. On a live agent \<open>set_state\<close> changes the object it is given:
  its rotation becomes the quaternion of the coefficients, when it was a list or an
  array. Without \<open>infer_sensor_states\<close>, when the call returns, the rotation of every
  sensor pose of the object that was a list has become a quaternion; with
  \<open>infer_sensor_states\<close> the sensor poses are not touched. With \<open>is_initial\<close>, when the call
  returns, the agent's initial state is the reference it was given: whatever is written
  to the object afterwards is what the recorded initial state shows. No other object
  changes.
\<close>

theorem set_state_mutates_argument:
  assumes "body_valid (body a)"
      and "set_state_obj a h r reset_sensors infer_sensor_states is_initial = (e, a', h')"
  shows "rotation (h' r) = RQuat (state_quat (rotation (h r)))
       \<and> (infer_sensor_states \<longrightarrow> sensor_states (h' r) = sensor_states (h r))
       \<and> (\<not> infer_sensor_states \<and> e = None \<longrightarrow>
            sensor_states (h' r)
              = map (\<lambda>(k, v). (k, v\<lparr>pose_rotation := PQuat (pose_quat (pose_rotation v))\<rparr>))
                  (sensor_states (h r)))
       \<and> (is_initial \<and> e = None \<longrightarrow>
            initial_state a' = Some r
          \<and> (\<forall>state. recorded_initial_state a' (h'(r := state)) = Some state))
       \<and> (\<forall>r'. r' \<noteq> r \<longrightarrow> h' r' = h r')"
proof -
  let ?res = "set_state a r (h r) reset_sensors infer_sensor_states is_initial"
  from assms(2) have e: "e = fst ?res" and a': "a' = fst (snd ?res)"
    and h': "h' = h(r := snd (snd ?res))"
    by (auto simp: set_state_obj_def case_prod_unfold)
  have 1: "rotation (h' r) = RQuat (state_quat (rotation (h r)))"
    by (simp add: h' set_state_body(2) [OF assms(1)])
  have 2: "sensor_states (h' r) = sensor_states (h r)" if infer_sensor_states
    using that set_state_inferred(2) [OF assms(1)] by (simp add: h')
  have 3: "sensor_states (h' r)
              = map (\<lambda>(k, v). (k, v\<lparr>pose_rotation := PQuat (pose_quat (pose_rotation v))\<rparr>))
                  (sensor_states (h r))"
    if "\<not> infer_sensor_states" and "e = None"
    using that e
    by (simp add: h' set_state_explicit(4) [OF assms(1)] set_state_explicit(1) [OF assms(1)]
        place_sensors_converted)
  have i: "initial_state a' = Some r" if is_initial and "e = None"
  proof (cases infer_sensor_states)
    case True
    then show ?thesis using that set_state_inferred(3) [OF assms(1)] by (simp add: a')
  next
    case False
    then show ?thesis using that e set_state_explicit(6) [OF assms(1)] by (simp add: a')
  qed
  have 4: "recorded_initial_state a' (h'(r := state)) = Some state"
    if is_initial and "e = None" for state
    using i [OF that] by (simp add: recorded_initial_state_def)
  have 5: "h' r' = h r'" if "r' \<noteq> r" for r' using that by (simp add: h')
  show ?thesis using 1 2 3 i 4 5 by blast
qed

theorem set_state_mutates_argument_witness:
  "body_valid (body example_agent)
   \<and> fst (set_state_obj example_agent example_store 0 True False True) = None
   \<and> rotation (snd (snd (set_state_obj example_agent example_store 0 True False True)) 0)
       = RQuat (quat_from_coeffs (0, 3, 0, 4))
   \<and> sensor_states (snd (snd (set_state_obj example_agent example_store 0 True False True)) 0)
       = [(''rgba_camera'',
           \<lparr>pose_position = (6, 2, 1), pose_rotation = PQuat (Quaternion 1 0 0 0)\<rparr>)]
   \<and> initial_state (fst (snd (set_state_obj example_agent example_store 0 True False True)))
       = Some 0
   \<and> recorded_initial_state
         (fst (snd (set_state_obj example_agent example_store 0 True False True)))
         ((snd (snd (set_state_obj example_agent example_store 0 True False True)))
            (0 := example_state))
       = Some example_state"
proof -
  let ?res = "set_state_obj example_agent example_store 0 True False True"
  have h1: "body_valid (body example_agent)" by (simp add: example_agent_eq)
  have h2: "?res = (fst ?res, fst (snd ?res), snd (snd ?res))" by simp
  have "fst (set_state example_agent 0 raw_state True False True) = None"
    unfolding set_state_explicit(1) [OF h1]
    by (rule place_sensors_succeeds)
       (simp add: raw_state_def AgentState_init_def example_agent_eq)
  then have e: "fst ?res = None"
    by (simp add: set_state_obj_def example_store_def case_prod_unfold)
  have s: "rotation (example_store 0) = RArray (0, 3, 0, 4)"
    and p: "sensor_states (example_store 0)
              = [(''rgba_camera'',
                  \<lparr>pose_position = (6, 2, 1), pose_rotation = PList (0, 0, 0, 1)\<rparr>)]"
    by (simp_all add: example_store_def raw_state_def AgentState_init_def)
  show ?thesis
    using h1 e set_state_mutates_argument [OF h1 h2]
    by (simp add: s p)
qed

text \<open>
  The claim as stated, that the rotation of each named sensor pose is overwritten, fails
  for a call with the default flags: the pose of the camera keeps its list.
\<close>

theorem set_state_mutates_argument_counterexample:
  "map_of (sensor_states (example_store 0)) ''rgba_camera''
     = Some \<lparr>pose_position = (6, 2, 1), pose_rotation = PList (0, 0, 0, 1)\<rparr>
   \<and> map_of (sensors example_agent) ''rgba_camera'' \<noteq> None
   \<and> fst (set_state_obj example_agent example_store 0 True True False) = None
   \<and> map_of (sensor_states
         (snd (snd (set_state_obj example_agent example_store 0 True True False)) 0))
       ''rgba_camera''
     = Some \<lparr>pose_position = (6, 2, 1), pose_rotation = PList (0, 0, 0, 1)\<rparr>"
  by (simp add: set_state_obj_def example_store_def raw_state_def AgentState_init_def
      example_agent_eq set_state_def Let_def)

section \<open>Defaults shared by the instances\<close>

text \<open>
  Claim C9 does not hold of the code. Two \<^verbatim>\<open>AgentState\<close> objects built with default
  values hold the same position array: after \<^verbatim>\<open>s1.position[0] = 5\<close> the position of
  \<open>s2\<close> reads \<open>[5, 0, 0]\<close>. Their \<^verbatim>\<open>sensor_states\<close>, which has a factory, are two
  dictionaries. The same holds of the position of two \<^verbatim>\<open>SixDOFPose\<close> objects.
\<close>

theorem default_position_is_shared:
  "objects (snd (snd two_states)) (position_ref (fst (snd two_states)))
     = Some (NdArray [0, 0, 0])
   \<and> array_setitem (position_ref (fst two_states)) 0 5 (snd (snd two_states)) \<noteq> None
   \<and> objects (the (array_setitem (position_ref (fst two_states)) 0 5 (snd (snd two_states))))
       (position_ref (fst (snd two_states)))
     = Some (NdArray [5, 0, 0])
   \<and> sensor_states_ref (fst two_states) \<noteq> sensor_states_ref (fst (snd two_states))
   \<and> objects (snd (snd two_poses)) (pose_position_ref (fst (snd two_poses)))
     = Some (NdArray [0, 0, 0])
   \<and> array_setitem (pose_position_ref (fst two_poses)) 0 5 (snd (snd two_poses)) \<noteq> None
   \<and> objects (the (array_setitem (pose_position_ref (fst two_poses)) 0 5 (snd (snd two_poses))))
       (pose_position_ref (fst (snd two_poses)))
     = Some (NdArray [5, 0, 0])"
  by (simp add: two_states_def two_poses_def AgentState_class_def AgentState_new_def
      SixDOFPose_class_def SixDOFPose_new_def np_zeros_def alloc_def empty_heap_def
      array_setitem_def numeral_3_eq_3)

end
